theory Spec2Isabelle
  imports Main "HOL-Library.Sublist"
begin

section \<open>Python values\<close>

text \<open>
  The values that \<^verbatim>\<open>json.loads\<close> produces and \<^verbatim>\<open>json.dumps\<close> accepts: \<^verbatim>\<open>None\<close>,
  \<^verbatim>\<open>bool\<close>, \<^verbatim>\<open>int\<close>, \<^verbatim>\<open>float\<close>, \<^verbatim>\<open>str\<close>, \<^verbatim>\<open>list\<close> and \<^verbatim>\<open>dict\<close> with \<^verbatim>\<open>str\<close> keys.

  A \<^verbatim>\<open>str\<close> is a \<open>string\<close>; each \<open>char\<close> stands for one code point below 256.
  A \<^verbatim>\<open>dict\<close> is an association list in insertion order; \<open>dict_setitem\<close> keeps the keys
  distinct, as Python does.

  A \<^verbatim>\<open>float\<close> that was read from a decimal numeral is kept as that numeral:
  \<open>Dec neg m e\<close> is the double nearest to \<open>\<plusminus> m * 10 ^ e\<close>. Nothing in the program
  looks at a float except to compare it with \<^verbatim>\<open>False\<close>.
\<close>

datatype pyfloat = Dec bool nat int | Inf bool | NaN

datatype pyval =
    PyNone
  | PyBool bool
  | PyInt int
  | PyFloat pyfloat
  | PyStr string
  | PyList "pyval list"
  | PyDict "(string \<times> pyval) list"

text \<open>
  The exceptions that can leave the modelled functions. \<open>NexusClientAPIError\<close> carries the
  argument it was raised with. \<open>OtherException\<close> is any other exception raised by a
  collaborator (the transport, the terminal). \<open>Unmodelled\<close> is not a Python exception: it
  marks an input outside this model (a \<^verbatim>\<open>\u\<close> escape above code point 255 when reading, a
  float when writing).
\<close>

datatype error =
    NexusClientAPIError pyval
  | TypeError
  | KeyError string
  | JSONDecodeError
  | KeyboardInterrupt
  | OtherException string
  | Unmodelled

fun dict_setitem :: "(string \<times> pyval) list \<Rightarrow> string \<Rightarrow> pyval \<Rightarrow> (string \<times> pyval) list" where
  "dict_setitem [] k v = [(k, v)]"
| "dict_setitem ((k', v') # d) k v =
     (if k' = k then (k, v) # d else (k', v') # dict_setitem d k v)"

text \<open>\<^verbatim>\<open>key in x\<close> for a \<^verbatim>\<open>str\<close> key: a key of a dict, an element of a list, a substring
  of a string; a \<^verbatim>\<open>TypeError\<close> on everything else.\<close>

fun py_contains :: "string \<Rightarrow> pyval \<Rightarrow> error + bool" where
  "py_contains k (PyDict d) = Inr (k \<in> fst ` set d)"
| "py_contains k (PyList xs) = Inr (PyStr k \<in> set xs)"
| "py_contains k (PyStr s) = Inr (sublist k s)"
| "py_contains k _ = Inl TypeError"

text \<open>\<^verbatim>\<open>x[key]\<close> for a \<^verbatim>\<open>str\<close> key: only a dict accepts it.\<close>

fun py_getitem :: "pyval \<Rightarrow> string \<Rightarrow> error + pyval" where
  "py_getitem (PyDict d) k = (case map_of d k of None \<Rightarrow> Inl (KeyError k) | Some v \<Rightarrow> Inr v)"
| "py_getitem _ k = Inl TypeError"

text \<open>A float is zero when its numeral is zero or rounds to zero, that is when it is at
  most \<open>2 ^ -1075\<close>, half the least positive double.\<close>

fun float_is_zero :: "pyfloat \<Rightarrow> bool" where
  "float_is_zero (Dec neg m e) = (m = 0 \<or> (e < 0 \<and> m * 2 ^ 1075 \<le> 10 ^ nat (- e)))"
| "float_is_zero (Inf neg) = False"
| "float_is_zero NaN = False"

text \<open>\<^verbatim>\<open>x == False\<close>: \<^verbatim>\<open>False\<close>, \<^verbatim>\<open>0\<close> and \<^verbatim>\<open>0.0\<close> are equal to \<^verbatim>\<open>False\<close>.\<close>

fun py_eq_False :: "pyval \<Rightarrow> bool" where
  "py_eq_False (PyBool b) = (\<not> b)"
| "py_eq_False (PyInt i) = (i = 0)"
| "py_eq_False (PyFloat f) = float_is_zero f"
| "py_eq_False _ = False"

text \<open>\<^verbatim>\<open>len(x)\<close>.\<close>

fun py_len :: "pyval \<Rightarrow> error + nat" where
  "py_len (PyList xs) = Inr (length xs)"
| "py_len (PyStr s) = Inr (length s)"
| "py_len (PyDict d) = Inr (length d)"
| "py_len _ = Inl TypeError"

fun str_join :: "string \<Rightarrow> string list \<Rightarrow> string" where
  "str_join sep [] = []"
| "str_join sep [x] = x"
| "str_join sep (x # y # ys) = x @ sep @ str_join sep (y # ys)"

fun the_strs :: "pyval list \<Rightarrow> error + string list" where
  "the_strs [] = Inr []"
| "the_strs (PyStr s # xs) = (case the_strs xs of Inl e \<Rightarrow> Inl e | Inr ss \<Rightarrow> Inr (s # ss))"
| "the_strs (_ # xs) = Inl TypeError"

text \<open>\<^verbatim>\<open>sep.join(x)\<close>: the items of \<^verbatim>\<open>x\<close> (the elements of a list, the characters of a
  string, the keys of a dict) must all be strings.\<close>

fun py_join :: "string \<Rightarrow> pyval \<Rightarrow> error + string" where
  "py_join sep (PyList xs) = (case the_strs xs of Inl e \<Rightarrow> Inl e | Inr ss \<Rightarrow> Inr (str_join sep ss))"
| "py_join sep (PyStr s) = Inr (str_join sep (map (\<lambda>c. [c]) s))"
| "py_join sep (PyDict d) = Inr (str_join sep (map fst d))"
| "py_join sep _ = Inl TypeError"

fun str_nat :: "nat \<Rightarrow> string" where
  "str_nat n = (if n < 10 then [char_of (48 + n)] else str_nat (n div 10) @ [char_of (48 + n mod 10)])"

declare str_nat.simps [simp del]

definition str_int :: "int \<Rightarrow> string" where
  "str_int i = (if i < 0 then CHR ''-'' # str_nat (nat (- i)) else str_nat (nat i))"

section \<open>The JSON decoder\<close>

text \<open>
  \<^verbatim>\<open>json.loads\<close> as the Python library defines it (\<^verbatim>\<open>json/decoder.py\<close>,
  \<^verbatim>\<open>json/scanner.py\<close>), function by function. Where Python passes the text and an index,
  the model passes the rest of the text. Every decoding failure is \<open>JSONDecodeError\<close>;
  its message and position are not kept.
\<close>

definition WHITESPACE_STR :: string where
  "WHITESPACE_STR = [CHR 0x20, CHR 0x09, CHR 0x0A, CHR 0x0D]"

definition skip_whitespace :: "string \<Rightarrow> string" where
  "skip_whitespace = dropWhile (\<lambda>c. c \<in> set WHITESPACE_STR)"

definition BACKSLASH :: "char \<Rightarrow> char option" where
  "BACKSLASH e =
     (if e = CHR 0x22 then Some (CHR 0x22)
      else if e = CHR 0x5C then Some (CHR 0x5C)
      else if e = CHR ''/'' then Some (CHR ''/'')
      else if e = CHR ''b'' then Some (CHR 0x08)
      else if e = CHR ''f'' then Some (CHR 0x0C)
      else if e = CHR ''n'' then Some (CHR 0x0A)
      else if e = CHR ''r'' then Some (CHR 0x0D)
      else if e = CHR ''t'' then Some (CHR 0x09)
      else None)"

definition is_digit :: "char \<Rightarrow> bool" where
  "is_digit c = (48 \<le> (of_char c :: nat) \<and> (of_char c :: nat) \<le> 57)"

definition hexval :: "char \<Rightarrow> nat option" where
  "hexval c =
     (let n = (of_char c :: nat) in
      if 48 \<le> n \<and> n \<le> 57 then Some (n - 48)
      else if 97 \<le> n \<and> n \<le> 102 then Some (n - 87)
      else if 65 \<le> n \<and> n \<le> 70 then Some (n - 55)
      else None)"

definition decode_uXXXX :: "string \<Rightarrow> nat option" where
  "decode_uXXXX cs =
     (case map hexval (take 4 cs) of
        [Some a, Some b, Some c, Some d] \<Rightarrow> Some (((a * 16 + b) * 16 + c) * 16 + d)
      | _ \<Rightarrow> None)"

text \<open>\<^verbatim>\<open>scanstring\<close>, called after the opening quote; \<open>acc\<close> holds the characters
  read so far, last first.\<close>

fun py_scanstring :: "string \<Rightarrow> string \<Rightarrow> error + string \<times> string" where
  "py_scanstring acc [] = Inl JSONDecodeError"
| "py_scanstring acc (c # cs) =
     (if c = CHR 0x22 then Inr (rev acc, cs)
      else if c = CHR 0x5C then
        (case cs of
           [] \<Rightarrow> Inl JSONDecodeError
         | esc # cs' \<Rightarrow>
             if esc \<noteq> CHR ''u'' then
               (case BACKSLASH esc of
                  None \<Rightarrow> Inl JSONDecodeError
                | Some ch \<Rightarrow> py_scanstring (ch # acc) cs')
             else
               (case decode_uXXXX cs' of
                  None \<Rightarrow> Inl JSONDecodeError
                | Some uni \<Rightarrow>
                    if uni < 256 then py_scanstring (char_of uni # acc) (drop 4 cs')
                    else Inl Unmodelled))
      else if (of_char c :: nat) < 32 then Inl JSONDecodeError
      else py_scanstring (c # acc) cs)"

definition digits_value :: "string \<Rightarrow> nat" where
  "digits_value ds = foldl (\<lambda>n c. 10 * n + ((of_char c :: nat) - 48)) 0 ds"

text \<open>\<^verbatim>\<open>NUMBER_RE = (-?(?:0|[1-9][0-9]*))(\.[0-9]+)?([eE][-+]?[0-9]+)?\<close>, group by group.\<close>

definition match_integer :: "string \<Rightarrow> (string \<times> string) option" where
  "match_integer cs =
     (case cs of
        [] \<Rightarrow> None
      | c # r \<Rightarrow>
          if c = CHR ''0'' then Some ([c], r)
          else if is_digit c then Some (takeWhile is_digit cs, dropWhile is_digit cs)
          else None)"

definition match_frac :: "string \<Rightarrow> string \<times> string" where
  "match_frac cs =
     (case cs of
        c # d # r \<Rightarrow>
          if c = CHR ''.'' \<and> is_digit d
          then (takeWhile is_digit (d # r), dropWhile is_digit (d # r))
          else ([], cs)
      | _ \<Rightarrow> ([], cs))"

definition match_exp :: "string \<Rightarrow> (bool \<times> string) option \<times> string" where
  "match_exp cs =
     (case cs of
        [] \<Rightarrow> (None, cs)
      | e # r \<Rightarrow>
          if e = CHR ''e'' \<or> e = CHR ''E'' then
            (let (neg, r') =
               (case r of
                  [] \<Rightarrow> (False, r)
                | s # r2 \<Rightarrow>
                    if s = CHR ''-'' then (True, r2)
                    else if s = CHR ''+'' then (False, r2)
                    else (False, r))
             in if r' \<noteq> [] \<and> is_digit (hd r')
                then (Some (neg, takeWhile is_digit r'), dropWhile is_digit r')
                else (None, cs))
          else (None, cs))"

definition match_number :: "string \<Rightarrow> (pyval \<times> string) option" where
  "match_number cs =
     (let (neg, cs1) = (case cs of [] \<Rightarrow> (False, cs)
                        | c # r \<Rightarrow> if c = CHR ''-'' then (True, r) else (False, cs))
      in case match_integer cs1 of
           None \<Rightarrow> None
         | Some (integer, cs2) \<Rightarrow>
             (let (frac, cs3) = match_frac cs2;
                  (exp, cs4) = match_exp cs3
              in if frac \<noteq> [] \<or> exp \<noteq> None then
                   Some (PyFloat (Dec neg (digits_value (integer @ frac))
                           ((case exp of None \<Rightarrow> 0
                             | Some (eneg, ds) \<Rightarrow>
                                 if eneg then - int (digits_value ds) else int (digits_value ds))
                            - int (length frac))), cs4)
                 else
                   Some (PyInt (if neg then - int (digits_value integer)
                                else int (digits_value integer)), cs4)))"

text \<open>
  \<^verbatim>\<open>scan_once\<close>, and the loops of \<^verbatim>\<open>JSONObject\<close> (entered after the opening quote of a
  key) and \<^verbatim>\<open>JSONArray\<close> (entered at an element). The two comparisons of lengths guard the
  recursive calls on the text that a nested call left over; the text left over is always
  shorter, so their failure branches are never taken.
\<close>

function scan_once :: "string \<Rightarrow> error + pyval \<times> string"
  and JSONObject_loop :: "(string \<times> pyval) list \<Rightarrow> string \<Rightarrow> error + pyval \<times> string"
  and JSONArray_loop :: "pyval list \<Rightarrow> string \<Rightarrow> error + pyval \<times> string"
where
  "scan_once [] = Inl JSONDecodeError"
| "scan_once (nextchar # cs) =
     (if nextchar = CHR 0x22 then
        (case py_scanstring [] cs of
           Inl e \<Rightarrow> Inl e
         | Inr (s, rest) \<Rightarrow> Inr (PyStr s, rest))
      else if nextchar = CHR ''{'' then
        (case skip_whitespace cs of
           [] \<Rightarrow> Inl JSONDecodeError
         | c # r \<Rightarrow>
             if c = CHR ''}'' then Inr (PyDict [], r)
             else if c = CHR 0x22 then JSONObject_loop [] r
             else Inl JSONDecodeError)
      else if nextchar = CHR ''['' then
        (case skip_whitespace cs of
           [] \<Rightarrow> Inl JSONDecodeError
         | c # r \<Rightarrow>
             if c = CHR '']'' then Inr (PyList [], r)
             else JSONArray_loop [] (c # r))
      else if take 4 (nextchar # cs) = ''null'' then Inr (PyNone, drop 3 cs)
      else if take 4 (nextchar # cs) = ''true'' then Inr (PyBool True, drop 3 cs)
      else if take 5 (nextchar # cs) = ''false'' then Inr (PyBool False, drop 4 cs)
      else
        (case match_number (nextchar # cs) of
           Some (res, rest) \<Rightarrow> Inr (res, rest)
         | None \<Rightarrow>
             if take 3 (nextchar # cs) = ''NaN'' then Inr (PyFloat NaN, drop 2 cs)
             else if take 8 (nextchar # cs) = ''Infinity'' then Inr (PyFloat (Inf False), drop 7 cs)
             else if take 9 (nextchar # cs) = ''-Infinity'' then Inr (PyFloat (Inf True), drop 8 cs)
             else Inl JSONDecodeError))"
| "JSONObject_loop pairs cs =
     (case py_scanstring [] cs of
        Inl e \<Rightarrow> Inl e
      | Inr (key, cs1) \<Rightarrow>
          (case skip_whitespace cs1 of
             [] \<Rightarrow> Inl JSONDecodeError
           | colon # cs2 \<Rightarrow>
               if colon \<noteq> CHR '':'' then Inl JSONDecodeError
               else if \<not> length (skip_whitespace cs2) < length cs then Inl JSONDecodeError
               else
                 (case scan_once (skip_whitespace cs2) of
                    Inl e \<Rightarrow> Inl e
                  | Inr (v, cs3) \<Rightarrow>
                      (case skip_whitespace cs3 of
                         [] \<Rightarrow> Inl JSONDecodeError
                       | c # cs4 \<Rightarrow>
                           if c = CHR ''}'' then Inr (PyDict (dict_setitem pairs key v), cs4)
                           else if c \<noteq> CHR '','' then Inl JSONDecodeError
                           else
                             (case skip_whitespace cs4 of
                                [] \<Rightarrow> Inl JSONDecodeError
                              | q # cs5 \<Rightarrow>
                                  if q \<noteq> CHR 0x22 then Inl JSONDecodeError
                                  else if \<not> length cs5 < length cs then Inl JSONDecodeError
                                  else JSONObject_loop (dict_setitem pairs key v) cs5)))))"
| "JSONArray_loop vals cs =
     (case scan_once cs of
        Inl e \<Rightarrow> Inl e
      | Inr (v, cs1) \<Rightarrow>
          (case skip_whitespace cs1 of
             [] \<Rightarrow> Inl JSONDecodeError
           | c # cs2 \<Rightarrow>
               if c = CHR '']'' then Inr (PyList (vals @ [v]), cs2)
               else if c \<noteq> CHR '','' then Inl JSONDecodeError
               else if \<not> length (skip_whitespace cs2) < length cs then Inl JSONDecodeError
               else JSONArray_loop (vals @ [v]) (skip_whitespace cs2)))"
  by pat_completeness auto

lemma length_skip_whitespace: "length (skip_whitespace cs) \<le> length cs"
  by (simp add: skip_whitespace_def length_dropWhile_le)

lemma skip_whitespace_Cons_length:
  "skip_whitespace cs = c # r \<Longrightarrow> length r < length cs"
  using length_skip_whitespace [of cs] by simp

termination scan_once
  apply (relation "measure (\<lambda>x. case x of
            Inl cs \<Rightarrow> 2 * length cs
          | Inr (Inl (pairs, cs)) \<Rightarrow> 2 * length cs + 1
          | Inr (Inr (vals, cs)) \<Rightarrow> 2 * length cs + 1)")
      apply simp
     apply (simp, drule skip_whitespace_Cons_length, simp)
    apply (simp, drule skip_whitespace_Cons_length, simp)
   apply simp_all
  done

declare scan_once.simps(2) [simp del] JSONObject_loop.simps [simp del]
  JSONArray_loop.simps [simp del]

text \<open>\<^verbatim>\<open>JSONDecoder.decode\<close>: white space, one value, white space, end of text.\<close>

definition json_loads :: "string \<Rightarrow> error + pyval" where
  "json_loads s =
     (case scan_once (skip_whitespace s) of
        Inl e \<Rightarrow> Inl e
      | Inr (obj, rest) \<Rightarrow>
          if skip_whitespace rest = [] then Inr obj else Inl JSONDecodeError)"

section \<open>The JSON encoder\<close>

text \<open>
  \<^verbatim>\<open>json.dumps\<close> with its default arguments (\<^verbatim>\<open>ensure_ascii=True\<close>, separators
  \<^verbatim>\<open>', '\<close> and \<^verbatim>\<open>': '\<close>), from \<^verbatim>\<open>json/encoder.py\<close>.
\<close>

definition hexdigit :: "nat \<Rightarrow> char" where
  "hexdigit n = (if n < 10 then char_of (48 + n) else char_of (87 + n))"

text \<open>\<^verbatim>\<open>ESCAPE_DCT\<close>, and \<^verbatim>\<open>\u00xx\<close> for every other character outside
  \<^verbatim>\<open>' '..'~'\<close>.\<close>

definition escape_char :: "char \<Rightarrow> string" where
  "escape_char c =
     (if c = CHR 0x5C then [CHR 0x5C, CHR 0x5C]
      else if c = CHR 0x22 then [CHR 0x5C, CHR 0x22]
      else if c = CHR 0x08 then [CHR 0x5C, CHR ''b'']
      else if c = CHR 0x0C then [CHR 0x5C, CHR ''f'']
      else if c = CHR 0x0A then [CHR 0x5C, CHR ''n'']
      else if c = CHR 0x0D then [CHR 0x5C, CHR ''r'']
      else if c = CHR 0x09 then [CHR 0x5C, CHR ''t'']
      else if 32 \<le> (of_char c :: nat) \<and> (of_char c :: nat) \<le> 126 then [c]
      else [CHR 0x5C, CHR ''u'', CHR ''0'', CHR ''0'',
            hexdigit ((of_char c :: nat) div 16), hexdigit ((of_char c :: nat) mod 16)])"

definition encode_basestring_ascii :: "string \<Rightarrow> string" where
  "encode_basestring_ascii s = CHR 0x22 # concat (map escape_char s) @ [CHR 0x22]"

fun json_dumps :: "pyval \<Rightarrow> error + string"
  and dumps_items :: "pyval list \<Rightarrow> error + string list"
  and dumps_pairs :: "(string \<times> pyval) list \<Rightarrow> error + string list"
where
  "json_dumps PyNone = Inr ''null''"
| "json_dumps (PyBool b) = Inr (if b then ''true'' else ''false'')"
| "json_dumps (PyInt i) = Inr (str_int i)"
| "json_dumps (PyFloat f) = Inl Unmodelled"
| "json_dumps (PyStr s) = Inr (encode_basestring_ascii s)"
| "json_dumps (PyList xs) =
     (case dumps_items xs of
        Inl e \<Rightarrow> Inl e
      | Inr ts \<Rightarrow> Inr (''['' @ str_join '', '' ts @ '']''))"
| "json_dumps (PyDict d) =
     (case dumps_pairs d of
        Inl e \<Rightarrow> Inl e
      | Inr ts \<Rightarrow> Inr (''{'' @ str_join '', '' ts @ ''}''))"
| "dumps_items [] = Inr []"
| "dumps_items (x # xs) =
     (case json_dumps x of
        Inl e \<Rightarrow> Inl e
      | Inr t \<Rightarrow> (case dumps_items xs of Inl e \<Rightarrow> Inl e | Inr ts \<Rightarrow> Inr (t # ts)))"
| "dumps_pairs [] = Inr []"
| "dumps_pairs ((k, v) # ps) =
     (case json_dumps v of
        Inl e \<Rightarrow> Inl e
      | Inr t \<Rightarrow>
          (case dumps_pairs ps of
             Inl e \<Rightarrow> Inl e
           | Inr ts \<Rightarrow> Inr ((encode_basestring_ascii k @ '': '' @ t) # ts)))"

section \<open>The service and the terminal\<close>

text \<open>
  Every call that leaves the process is an event. The collaborators of the modelled
  functions are not part of them: the script transport (\<^verbatim>\<open>client.scripts\<close>), the file
  of the Groovy script (\<^verbatim>\<open>nexus_util.groovy_script\<close>), the prompt
  (\<^verbatim>\<open>util.input_with_default\<close>). They are the fields of a \<open>client\<close>: each one answers a
  call from the events that came before it, so the answers may depend on everything the
  service and the user have seen so far.
\<close>

datatype AssetMatchOptions = EXACT_NAME | WILDCARD | REGEX

datatype event =
    ScriptsDelete string
  | ScriptsCreateIfMissing string string
  | ScriptsRun string string
  | RepositoriesDeleteAssets string string AssetMatchOptions bool
  | InputWithDefault string string
  | StdoutWrite string
  | StderrWrite string

datatype CliReturnCode = SUCCESS | NO_FILES | API_ERROR | INVALID_SUBCOMMAND | UNKNOWN_ERROR

record client =
  groovy_script :: "string \<Rightarrow> string"
  scripts_delete :: "event list \<Rightarrow> string \<Rightarrow> error option"
  scripts_create_if_missing :: "event list \<Rightarrow> string \<Rightarrow> string \<Rightarrow> error option"
  scripts_run :: "event list \<Rightarrow> string \<Rightarrow> string \<Rightarrow> error + pyval"
  repositories_delete_assets ::
    "event list \<Rightarrow> string \<Rightarrow> string \<Rightarrow> AssetMatchOptions \<Rightarrow> bool \<Rightarrow> error + pyval"
  input_with_default :: "event list \<Rightarrow> string \<Rightarrow> string \<Rightarrow> error + string"
  PLURAL :: "string \<Rightarrow> nat \<Rightarrow> string"
  str_of_exception :: "error \<Rightarrow> string"
  return_code_value :: "CliReturnCode \<Rightarrow> int"

section \<open>\<^verbatim>\<open>RepositoryCollection.delete_assets\<close>\<close>

definition SCRIPT_NAME_DELETE_ASSETS :: string where
  "SCRIPT_NAME_DELETE_ASSETS = ''nexus3-cli-repository-delete-assets''"

text \<open>The dict that \<^verbatim>\<open>delete_assets\<close> builds "for Groovy" (lines 168 to 172).\<close>

definition jsonData :: "string \<Rightarrow> string \<Rightarrow> bool \<Rightarrow> bool \<Rightarrow> (string \<times> pyval) list" where
  "jsonData reponame assetRegex isWildcard dryRun =
     dict_setitem
       (dict_setitem
          (dict_setitem
             (dict_setitem [] ''repoName'' (PyStr reponame))
             ''assetRegex'' (PyStr assetRegex))
          ''isWildcard'' (PyBool isWildcard))
       ''dryRun'' (PyBool dryRun)"

text \<open>Lines 175 to 188: "parse the JSON we got back".\<close>

definition parse_groovy_returned_json :: "pyval \<Rightarrow> error + pyval" where
  "parse_groovy_returned_json groovy_returned_json =
     (case py_contains ''result'' groovy_returned_json of
        Inl e \<Rightarrow> Inl e
      | Inr has_result \<Rightarrow>
          if \<not> has_result then Inl (NexusClientAPIError groovy_returned_json)
          else
            (case py_getitem groovy_returned_json ''result'' of
               Inl e \<Rightarrow> Inl e
             | Inr result \<Rightarrow>
                 (case (case result of PyStr s \<Rightarrow> json_loads s | _ \<Rightarrow> Inl TypeError) of
                    Inl e \<Rightarrow> Inl e
                  | Inr script_result \<Rightarrow>
                      if script_result = PyNone
                      then Inl (NexusClientAPIError groovy_returned_json)
                      else
                        (case py_contains ''assets'' script_result of
                           Inl e \<Rightarrow> Inl e
                         | Inr has_assets \<Rightarrow>
                             if \<not> has_assets
                             then Inl (NexusClientAPIError groovy_returned_json)
                             else
                               (case py_contains ''success'' script_result of
                                  Inl e \<Rightarrow> Inl e
                                | Inr has_success \<Rightarrow>
                                    (case (if has_success
                                           then (case py_getitem script_result ''success'' of
                                                   Inl e \<Rightarrow> Inl e
                                                 | Inr success \<Rightarrow> Inr (py_eq_False success))
                                           else Inr False) of
                                       Inl e \<Rightarrow> Inl e
                                     | Inr failed \<Rightarrow>
                                         if failed then
                                           (case py_getitem script_result ''error'' of
                                              Inl e \<Rightarrow> Inl e
                                            | Inr msg \<Rightarrow> Inl (NexusClientAPIError msg))
                                         else
                                           (case py_getitem script_result ''assets'' of
                                              Inl e \<Rightarrow> Inl e
                                            | Inr assets_list \<Rightarrow>
                                                if assets_list = PyNone then Inr (PyList [])
                                                else Inr assets_list)))))))"

text \<open>
  \<^verbatim>\<open>delete_assets(self, reponame, assetRegex, isWildcard, dryRun)\<close>: the script is deleted
  and installed again, then run on the encoded dict, and its answer is parsed. The result
  is the list of assets or the exception raised, with the events so far.
\<close>

definition delete_assets ::
  "client \<Rightarrow> string \<Rightarrow> string \<Rightarrow> bool \<Rightarrow> bool \<Rightarrow> event list \<Rightarrow> (error + pyval) \<times> event list"
where
  "delete_assets c reponame assetRegex isWildcard dryRun log =
     (let content = groovy_script c SCRIPT_NAME_DELETE_ASSETS;
          log1 = log @ [ScriptsDelete SCRIPT_NAME_DELETE_ASSETS]
      in case scripts_delete c log SCRIPT_NAME_DELETE_ASSETS of
           Some e \<Rightarrow> (Inl e, log1)
         | None \<Rightarrow>
             (let log2 = log1 @ [ScriptsCreateIfMissing SCRIPT_NAME_DELETE_ASSETS content]
              in case scripts_create_if_missing c log1 SCRIPT_NAME_DELETE_ASSETS content of
                   Some e \<Rightarrow> (Inl e, log2)
                 | None \<Rightarrow>
                     (case json_dumps (PyDict (jsonData reponame assetRegex isWildcard dryRun)) of
                        Inl e \<Rightarrow> (Inl e, log2)
                      | Inr data \<Rightarrow>
                          (let log3 = log2 @ [ScriptsRun SCRIPT_NAME_DELETE_ASSETS data]
                           in case scripts_run c log2 SCRIPT_NAME_DELETE_ASSETS data of
                                Inl e \<Rightarrow> (Inl e, log3)
                              | Inr groovy_returned_json \<Rightarrow>
                                  (parse_groovy_returned_json groovy_returned_json, log3)))))"

section \<open>\<^verbatim>\<open>nexus3 repository del_assets_regex\<close> and \<^verbatim>\<open>del_assets_wildcard\<close>\<close>

definition nl :: string where
  "nl = [CHR 0x0A]"

text \<open>\<^verbatim>\<open>subcommand_repository._cmd_del_assets\<close>, lines 152 to 158: the deletion itself.\<close>

definition subcommand_repository_delete ::
  "client \<Rightarrow> string \<Rightarrow> string \<Rightarrow> bool \<Rightarrow> event list \<Rightarrow> (error + int) \<times> event list"
where
  "subcommand_repository_delete c repoName assetRegex isWildcard log =
     (case delete_assets c repoName assetRegex isWildcard False log of
        (Inl e, log1) \<Rightarrow> (Inl e, log1)
      | (Inr assets_list, log1) \<Rightarrow>
          (case py_len assets_list of
             Inl e \<Rightarrow> (Inl e, log1)
           | Inr n \<Rightarrow>
               if n = 0 then
                 (Inr (return_code_value c SUCCESS),
                  log1 @ [StdoutWrite (''Found 0 matching assets: aborting delete'' @ nl)])
               else
                 (case py_join nl assets_list of
                    Inl e \<Rightarrow> (Inl e, log1)
                  | Inr joined \<Rightarrow>
                      (Inr (return_code_value c SUCCESS),
                       log1 @ [StdoutWrite (''Deleted '' @ str_nat n @ '' matching assets:'' @ nl
                                            @ joined @ nl)]))))"

text \<open>\<^verbatim>\<open>subcommand_repository._cmd_del_assets(nexus_client, repoName, assetRegex,
  isWildcard, doForce)\<close>. The result is the value returned (the exit code of the process)
  or the exception that leaves the function.\<close>

definition subcommand_repository_cmd_del_assets ::
  "client \<Rightarrow> string \<Rightarrow> string \<Rightarrow> bool \<Rightarrow> bool \<Rightarrow> event list \<Rightarrow> (error + int) \<times> event list"
where
  "subcommand_repository_cmd_del_assets c repoName assetRegex isWildcard doForce log =
     (if \<not> doForce then
        (let log1 = log @ [StdoutWrite (''Retrieving assets matching '' @ assetRegex @ nl)]
         in case delete_assets c repoName assetRegex isWildcard True log1 of
              (Inl e, log2) \<Rightarrow> (Inl e, log2)
            | (Inr assets_list, log2) \<Rightarrow>
                (case py_len assets_list of
                   Inl e \<Rightarrow> (Inl e, log2)
                 | Inr n \<Rightarrow>
                     if n = 0 then
                       (Inr (return_code_value c SUCCESS),
                        log2 @ [StdoutWrite (''Found 0 matching assets: aborting delete'' @ nl)])
                     else
                       (case py_join nl assets_list of
                          Inl e \<Rightarrow> (Inl e, log2)
                        | Inr joined \<Rightarrow>
                            (let log3 = log2 @ [StdoutWrite (''Found '' @ str_nat n
                                                  @ '' matching assets:'' @ nl @ joined @ nl)];
                                 log4 = log3 @ [InputWithDefault ''Press ENTER to confirm deletion''
                                                  ''ctrl+c to cancel'']
                             in case input_with_default c log3 ''Press ENTER to confirm deletion''
                                       ''ctrl+c to cancel'' of
                                  Inl e \<Rightarrow> (Inl e, log4)
                                | Inr answer \<Rightarrow>
                                    subcommand_repository_delete c repoName assetRegex isWildcard
                                      log4))))
      else subcommand_repository_delete c repoName assetRegex isWildcard log)"

definition cmd_del_assets_regex ::
  "client \<Rightarrow> string \<Rightarrow> string \<Rightarrow> bool \<Rightarrow> event list \<Rightarrow> (error + int) \<times> event list"
where
  "cmd_del_assets_regex c repoName assetRegex doForce log =
     subcommand_repository_cmd_del_assets c repoName assetRegex False doForce log"

definition cmd_del_assets_wildcard ::
  "client \<Rightarrow> string \<Rightarrow> string \<Rightarrow> bool \<Rightarrow> event list \<Rightarrow> (error + int) \<times> event list"
where
  "cmd_del_assets_wildcard c repoName assetWildcard doForce log =
     subcommand_repository_cmd_del_assets c repoName assetWildcard True doForce log"

section \<open>\<^verbatim>\<open>nexus3 delete\<close>\<close>

text \<open>
  \<^verbatim>\<open>root_commands._cmd_del_assets\<close> passes a member of \<^verbatim>\<open>AssetMatchOptions\<close> where
  \<^verbatim>\<open>RepositoryCollection.delete_assets\<close> above expects \<^verbatim>\<open>isWildcard\<close>: the
  \<^verbatim>\<open>delete_assets\<close> it calls is a collaborator, the field \<open>repositories_delete_assets\<close> of
  the client, and each call of it is an event.
\<close>

fun AssetMatchOptions_name :: "AssetMatchOptions \<Rightarrow> string" where
  "AssetMatchOptions_name EXACT_NAME = ''EXACT_NAME''"
| "AssetMatchOptions_name WILDCARD = ''WILDCARD''"
| "AssetMatchOptions_name REGEX = ''REGEX''"

text \<open>\<^verbatim>\<open>root_commands._cmd_del_assets\<close>, lines 171 to 181: the deletion itself.\<close>

definition root_commands_delete ::
  "client \<Rightarrow> string \<Rightarrow> string \<Rightarrow> AssetMatchOptions \<Rightarrow> event list \<Rightarrow> (error + int) \<times> event list"
where
  "root_commands_delete c repoName assetName assetMatchOption log =
     (let log1 = log @ [RepositoriesDeleteAssets repoName assetName assetMatchOption False]
      in case repositories_delete_assets c log repoName assetName assetMatchOption False of
           Inl e \<Rightarrow> (Inl e, log1)
         | Inr assets_list \<Rightarrow>
             (case py_len assets_list of
                Inl e \<Rightarrow> (Inl e, log1)
              | Inr delete_count \<Rightarrow>
                  if delete_count = 0 then
                    (Inr (return_code_value c SUCCESS),
                     log1 @ [StderrWrite (''Deleted '' @ str_nat delete_count @ '' ''
                                          @ PLURAL c ''file'' delete_count @ nl)])
                  else
                    (case py_join nl assets_list of
                       Inl e \<Rightarrow> (Inl e, log1)
                     | Inr joined \<Rightarrow>
                         (Inr (return_code_value c SUCCESS),
                          log1 @ [StdoutWrite (''Deleted '' @ str_nat delete_count
                                               @ '' matching assets:'' @ nl @ joined @ nl)]))))"

text \<open>\<^verbatim>\<open>root_commands._cmd_del_assets(nexus_client, repoName, assetName,
  assetMatchOption, doForce)\<close>. Only the preview is inside \<^verbatim>\<open>try\<close>, and only
  \<^verbatim>\<open>NexusClientAPIError\<close> is caught.\<close>

definition root_commands_cmd_del_assets ::
  "client \<Rightarrow> string \<Rightarrow> string \<Rightarrow> AssetMatchOptions \<Rightarrow> bool \<Rightarrow> event list
    \<Rightarrow> (error + int) \<times> event list"
where
  "root_commands_cmd_del_assets c repoName assetName assetMatchOption doForce log =
     (if \<not> doForce then
        (let log1 = log @ [StdoutWrite (''Retrieving assets matching ''
                             @ AssetMatchOptions_name assetMatchOption @ '' '' @ [CHR 0x22]
                             @ assetName @ [CHR 0x22] @ '' from repository '' @ [CHR 0x22]
                             @ repoName @ [CHR 0x22] @ nl)];
             log2 = log1 @ [RepositoriesDeleteAssets repoName assetName assetMatchOption True]
         in case repositories_delete_assets c log1 repoName assetName assetMatchOption True of
              Inl (NexusClientAPIError x) \<Rightarrow>
                (Inr (return_code_value c API_ERROR),
                 log2 @ [StderrWrite (''Error while running API: ''
                           @ str_of_exception c (NexusClientAPIError x) @ nl)])
            | Inl e \<Rightarrow> (Inl e, log2)
            | Inr assets_list \<Rightarrow>
                (case py_len assets_list of
                   Inl e \<Rightarrow> (Inl e, log2)
                 | Inr n \<Rightarrow>
                     if n = 0 then
                       (Inr (return_code_value c SUCCESS),
                        log2 @ [StdoutWrite (''Found 0 matching assets: aborting delete'' @ nl)])
                     else
                       (case py_join nl assets_list of
                          Inl e \<Rightarrow> (Inl e, log2)
                        | Inr joined \<Rightarrow>
                            (let log3 = log2 @ [StdoutWrite (''Found '' @ str_nat n
                                                  @ '' matching assets:'' @ nl @ joined @ nl)];
                                 log4 = log3 @ [InputWithDefault ''Press ENTER to confirm deletion''
                                                  ''ctrl+c to cancel'']
                             in case input_with_default c log3 ''Press ENTER to confirm deletion''
                                       ''ctrl+c to cancel'' of
                                  Inl e \<Rightarrow> (Inl e, log4)
                                | Inr answer \<Rightarrow>
                                    root_commands_delete c repoName assetName assetMatchOption
                                      log4))))
      else root_commands_delete c repoName assetName assetMatchOption log)"


section \<open>Answers of the service\<close>

text \<open>
  \<open>script_answers c log reponame assetRegex isWildcard dryRun groovy_returned_json\<close>: after
  the events \<open>log\<close>, the three calls that \<^verbatim>\<open>delete_assets\<close> makes go through, and
  \<^verbatim>\<open>scripts.run\<close> returns \<open>groovy_returned_json\<close>.
\<close>

definition script_answers ::
  "client \<Rightarrow> event list \<Rightarrow> string \<Rightarrow> string \<Rightarrow> bool \<Rightarrow> bool \<Rightarrow> pyval \<Rightarrow> bool"
where
  "script_answers c log reponame assetRegex isWildcard dryRun groovy_returned_json =
     (scripts_delete c log SCRIPT_NAME_DELETE_ASSETS = None \<and>
      scripts_create_if_missing c (log @ [ScriptsDelete SCRIPT_NAME_DELETE_ASSETS])
        SCRIPT_NAME_DELETE_ASSETS (groovy_script c SCRIPT_NAME_DELETE_ASSETS) = None \<and>
      (case json_dumps (PyDict (jsonData reponame assetRegex isWildcard dryRun)) of
         Inl e \<Rightarrow> False
       | Inr data \<Rightarrow>
           scripts_run c
             (log @ [ScriptsDelete SCRIPT_NAME_DELETE_ASSETS,
                     ScriptsCreateIfMissing SCRIPT_NAME_DELETE_ASSETS
                       (groovy_script c SCRIPT_NAME_DELETE_ASSETS)])
             SCRIPT_NAME_DELETE_ASSETS data = Inr groovy_returned_json))"

text \<open>
  The client of \<^verbatim>\<open>tests/cli/test_delete.py\<close>: \<^verbatim>\<open>scripts.run\<close> is a mock that returns
  one fixed answer. The other calls go through; the user presses ENTER; the return codes
  are numbered 0, 1, 2, 10 and 99.
\<close>

definition nexus_mock_client :: "pyval \<Rightarrow> client" where
  "nexus_mock_client return_value =
     \<lparr> groovy_script = (\<lambda>name. ''// '' @ name),
       scripts_delete = (\<lambda>log name. None),
       scripts_create_if_missing = (\<lambda>log name content. None),
       scripts_run = (\<lambda>log name data. Inr return_value),
       repositories_delete_assets = (\<lambda>log repoName assetName assetMatchOption dryRun.
          parse_groovy_returned_json return_value),
       input_with_default = (\<lambda>log prompt dflt. Inr dflt),
       PLURAL = (\<lambda>word n. if n = 1 then word else word @ ''s''),
       str_of_exception = (\<lambda>e. ''NexusClientAPIError''),
       return_code_value = (\<lambda>code. case code of
          SUCCESS \<Rightarrow> 0 | NO_FILES \<Rightarrow> 1 | API_ERROR \<Rightarrow> 2
        | INVALID_SUBCOMMAND \<Rightarrow> 10 | UNKNOWN_ERROR \<Rightarrow> 99) \<rparr>"

text \<open>The condition of line 182 on a decoded dict:
  \<^verbatim>\<open>'success' in script_result and script_result['success']==False\<close>.\<close>

definition success_is_False :: "(string \<times> pyval) list \<Rightarrow> bool" where
  "success_is_False script_result =
     (case map_of script_result ''success'' of
        None \<Rightarrow> False
      | Some success \<Rightarrow> py_eq_False success)"

text \<open>
  The text that \<^verbatim>\<open>delete_assets\<close> sends (line 173: \<^verbatim>\<open>json.dumps(jsonData)\<close>), and the
  three events of a call of \<^verbatim>\<open>delete_assets\<close> that goes through.
\<close>

definition json_dumps_jsonData_text :: "string \<Rightarrow> string \<Rightarrow> bool \<Rightarrow> bool \<Rightarrow> string" where
  "json_dumps_jsonData_text reponame assetRegex isWildcard dryRun =
     (case json_dumps (PyDict (jsonData reponame assetRegex isWildcard dryRun)) of
        Inl e \<Rightarrow> []
      | Inr data \<Rightarrow> data)"

definition delete_assets_events :: "client \<Rightarrow> string \<Rightarrow> string \<Rightarrow> bool \<Rightarrow> bool \<Rightarrow> event list" where
  "delete_assets_events c reponame assetRegex isWildcard dryRun =
     [ScriptsDelete SCRIPT_NAME_DELETE_ASSETS,
      ScriptsCreateIfMissing SCRIPT_NAME_DELETE_ASSETS (groovy_script c SCRIPT_NAME_DELETE_ASSETS),
      ScriptsRun SCRIPT_NAME_DELETE_ASSETS
        (json_dumps_jsonData_text reponame assetRegex isWildcard dryRun)]"

text \<open>
  Modelled from the spec: the scripts that the service holds, by name (section 4.1,
  ScriptRegistry). \<^verbatim>\<open>scripts.delete\<close> and \<^verbatim>\<open>scripts.create_if_missing\<close> are code of the
  repository that is not among the sources. By the spec, \<^verbatim>\<open>force_delete(scriptName)\<close>
  "removes any existing script under that name, ignoring not found", and
  \<^verbatim>\<open>ensure_installed(scriptName, scriptBody)\<close> "installs scriptBody under scriptName only if
  not already present". \<open>registry_after reg events\<close> is the registry after the requests
  among \<open>events\<close> went through, starting from \<open>reg\<close>. Running a script leaves the
  registry as it is; what a run does to the assets is decided by the script.
\<close>

fun registry_event :: "(string \<rightharpoonup> string) \<Rightarrow> event \<Rightarrow> (string \<rightharpoonup> string)" where
  "registry_event reg (ScriptsDelete name) = reg(name := None)"
| "registry_event reg (ScriptsCreateIfMissing name body) =
     (case reg name of None \<Rightarrow> reg(name \<mapsto> body) | Some present \<Rightarrow> reg)"
| "registry_event reg _ = reg"

definition registry_after :: "(string \<rightharpoonup> string) \<Rightarrow> event list \<Rightarrow> (string \<rightharpoonup> string)" where
  "registry_after reg events = foldl registry_event reg events"

section \<open>Properties of \<^verbatim>\<open>delete_assets\<close>\<close>

lemma jsonData_eq:
  "jsonData reponame assetRegex isWildcard dryRun =
     [(''repoName'', PyStr reponame), (''assetRegex'', PyStr assetRegex),
      (''isWildcard'', PyBool isWildcard), (''dryRun'', PyBool dryRun)]"
  by (simp add: jsonData_def)

lemma json_dumps_jsonData:
  "json_dumps (PyDict (jsonData reponame assetRegex isWildcard dryRun)) =
     Inr (''{'' @ encode_basestring_ascii ''repoName'' @ '': '' @ encode_basestring_ascii reponame
          @ '', '' @ encode_basestring_ascii ''assetRegex'' @ '': '' @ encode_basestring_ascii assetRegex
          @ '', '' @ encode_basestring_ascii ''isWildcard'' @ '': ''
          @ (if isWildcard then ''true'' else ''false'')
          @ '', '' @ encode_basestring_ascii ''dryRun'' @ '': ''
          @ (if dryRun then ''true'' else ''false'') @ ''}'')"
  by (simp add: jsonData_eq)

lemma delete_assets_answers:
  assumes "script_answers c log reponame assetRegex isWildcard dryRun groovy_returned_json"
  shows "\<exists>data. json_dumps (PyDict (jsonData reponame assetRegex isWildcard dryRun)) = Inr data \<and>
     delete_assets c reponame assetRegex isWildcard dryRun log =
       (parse_groovy_returned_json groovy_returned_json,
        log @ [ScriptsDelete SCRIPT_NAME_DELETE_ASSETS,
               ScriptsCreateIfMissing SCRIPT_NAME_DELETE_ASSETS
                 (groovy_script c SCRIPT_NAME_DELETE_ASSETS),
               ScriptsRun SCRIPT_NAME_DELETE_ASSETS data])"
  using assms
  by (auto simp: script_answers_def delete_assets_def Let_def split: sum.splits)

lemma mock_answers:
  "script_answers (nexus_mock_client r) log reponame assetRegex isWildcard dryRun r"
  by (simp add: script_answers_def nexus_mock_client_def json_dumps_jsonData del: json_dumps.simps)

lemma json_loads_test:
  \<open>json_loads ''{"success":true,"error":"","assets":["/r/a"]}'' =
     Inr (PyDict [(''success'', PyBool True), (''error'', PyStr ''''),
                  (''assets'', PyList [PyStr ''/r/a''])])\<close>
  by code_simp


lemma in_keys_iff: "k \<in> fst ` set d \<longleftrightarrow> (\<exists>v. map_of d k = Some v)"
  using map_of_eq_None_iff [of d k] by auto

lemma parse_groovy_returned_json_no_result:
  assumes "py_contains ''result'' groovy_returned_json = Inr False"
  shows "parse_groovy_returned_json groovy_returned_json =
           Inl (NexusClientAPIError groovy_returned_json)"
  using assms by (simp add: parse_groovy_returned_json_def)

lemma parse_groovy_returned_json_dict:
  assumes "map_of d ''result'' = Some (PyStr s)"
    and "json_loads s = Inr (PyDict r)"
  shows "parse_groovy_returned_json (PyDict d) =
     (case map_of r ''assets'' of
        None \<Rightarrow> Inl (NexusClientAPIError (PyDict d))
      | Some assets_list \<Rightarrow>
          if success_is_False r
          then (case map_of r ''error'' of
                  None \<Rightarrow> Inl (KeyError ''error'')
                | Some msg \<Rightarrow> Inl (NexusClientAPIError msg))
          else if assets_list = PyNone then Inr (PyList []) else Inr assets_list)"
proof -
  have res: "''result'' \<in> fst ` set d"
    using assms(1) by (auto simp: in_keys_iff)
  show ?thesis
  proof (cases "map_of r ''assets''")
    case None
    then have "''assets'' \<notin> fst ` set r" by (simp add: in_keys_iff)
    then show ?thesis
      using res assms None by (simp add: parse_groovy_returned_json_def)
  next
    case (Some a)
    then have a: "''assets'' \<in> fst ` set r" by (auto simp: in_keys_iff)
    show ?thesis
    proof (cases "map_of r ''success''")
      case None
      then have "''success'' \<notin> fst ` set r" by (simp add: in_keys_iff)
      then show ?thesis
        using res assms Some a None
        by (simp add: parse_groovy_returned_json_def success_is_False_def)
    next
      case (Some b)
      then have "''success'' \<in> fst ` set r" by (auto simp: in_keys_iff)
      then show ?thesis
        using res assms \<open>map_of r ''assets'' = Some a\<close> a Some
        by (simp add: parse_groovy_returned_json_def success_is_False_def split: option.splits)
    qed
  qed
qed

text \<open>
  Claim C1. Whenever the answer of \<^verbatim>\<open>scripts.run\<close> is a dict whose \<^verbatim>\<open>'result'\<close> is the
  string \<^verbatim>\<open>{"success":true,"error":"","assets":["/r/a"]}\<close>, \<^verbatim>\<open>delete_assets\<close> returns
  the list \<^verbatim>\<open>["/r/a"]\<close> and nothing else, whatever the other keys of the answer, the
  arguments and the events before the call.
\<close>

theorem C1_delete_assets_returns_the_one_asset:
  assumes "script_answers c log reponame assetRegex isWildcard dryRun (PyDict d)"
    and \<open>map_of d ''result'' =
           Some (PyStr ''{"success":true,"error":"","assets":["/r/a"]}'')\<close>
  shows "fst (delete_assets c reponame assetRegex isWildcard dryRun log) =
           Inr (PyList [PyStr ''/r/a''])"
proof -
  from delete_assets_answers [OF assms(1)]
  have "fst (delete_assets c reponame assetRegex isWildcard dryRun log) =
          parse_groovy_returned_json (PyDict d)"
    by auto
  also have "\<dots> = Inr (PyList [PyStr ''/r/a''])"
    by (simp add: parse_groovy_returned_json_dict [OF assms(2) json_loads_test]
          success_is_False_def)
  finally show ?thesis .
qed

text \<open>The answer of \<^verbatim>\<open>tests/cli/test_delete.py\<close>, with the inner string of the claim.\<close>

theorem C1_witness:
  \<open>script_answers
      (nexus_mock_client
         (PyDict [(''name'', PyStr ''nexus3-cli-repository-delete-assets''),
                  (''result'', PyStr ''{"success":true,"error":"","assets":["/r/a"]}'')]))
      [] ''repo'' ''some/path'' False False
      (PyDict [(''name'', PyStr ''nexus3-cli-repository-delete-assets''),
               (''result'', PyStr ''{"success":true,"error":"","assets":["/r/a"]}'')])
    \<and> fst (delete_assets
        (nexus_mock_client
           (PyDict [(''name'', PyStr ''nexus3-cli-repository-delete-assets''),
                    (''result'', PyStr ''{"success":true,"error":"","assets":["/r/a"]}'')]))
        ''repo'' ''some/path'' False False []) = Inr (PyList [PyStr ''/r/a''])\<close>
  by (intro conjI, rule mock_answers, rule C1_delete_assets_returns_the_one_asset [OF mock_answers]) simp

text \<open>
  Claim C2. Whenever the answer of \<^verbatim>\<open>scripts.run\<close> has no \<^verbatim>\<open>'result'\<close> in it,
  \<^verbatim>\<open>delete_assets\<close> raises: the exception is \<^verbatim>\<open>NexusClientAPIError\<close> and carries the
  whole answer. No list is returned, empty or not.
\<close>

theorem C2_missing_result_raises:
  assumes "script_answers c log reponame assetRegex isWildcard dryRun groovy_returned_json"
    and "py_contains ''result'' groovy_returned_json = Inr False"
  shows "fst (delete_assets c reponame assetRegex isWildcard dryRun log) =
           Inl (NexusClientAPIError groovy_returned_json)"
  using delete_assets_answers [OF assms(1)] parse_groovy_returned_json_no_result [OF assms(2)]
  by auto

text \<open>An answer with the key \<^verbatim>\<open>'name'\<close> only.\<close>

theorem C2_witness:
  "script_answers (nexus_mock_client (PyDict [(''name'', PyStr ''x'')])) [] ''repo'' ''a'' True True
     (PyDict [(''name'', PyStr ''x'')])
   \<and> py_contains ''result'' (PyDict [(''name'', PyStr ''x'')]) = Inr False
   \<and> fst (delete_assets (nexus_mock_client (PyDict [(''name'', PyStr ''x'')])) ''repo'' ''a'' True True [])
       = Inl (NexusClientAPIError (PyDict [(''name'', PyStr ''x'')]))"
  by (intro conjI, rule mock_answers, simp, rule C2_missing_result_raises [OF mock_answers]) simp

lemma delete_assets_dict:
  assumes "script_answers c log reponame assetRegex isWildcard dryRun (PyDict d)"
    and "map_of d ''result'' = Some (PyStr s)"
    and "json_loads s = Inr (PyDict r)"
  shows "fst (delete_assets c reponame assetRegex isWildcard dryRun log) =
     (case map_of r ''assets'' of
        None \<Rightarrow> Inl (NexusClientAPIError (PyDict d))
      | Some assets_list \<Rightarrow>
          if success_is_False r
          then (case map_of r ''error'' of
                  None \<Rightarrow> Inl (KeyError ''error'')
                | Some msg \<Rightarrow> Inl (NexusClientAPIError msg))
          else if assets_list = PyNone then Inr (PyList []) else Inr assets_list)"
  using delete_assets_answers [OF assms(1)] parse_groovy_returned_json_dict [OF assms(2,3)]
  by auto

lemma json_loads_failure_null:
  \<open>json_loads ''{"success":false,"error":"boom","assets":null}'' =
     Inr (PyDict [(''success'', PyBool False), (''error'', PyStr ''boom''), (''assets'', PyNone)])\<close>
  by code_simp

lemma json_loads_failure_no_assets:
  \<open>json_loads ''{"success":false,"error":"boom"}'' =
     Inr (PyDict [(''success'', PyBool False), (''error'', PyStr ''boom'')])\<close>
  by code_simp



lemma json_loads_unsorted:
  \<open>json_loads ''{"assets":["/r/b","/r//a","/r/b"]}'' =
     Inr (PyDict [(''assets'', PyList [PyStr ''/r/b'', PyStr ''/r//a'', PyStr ''/r/b''])])\<close>
  by code_simp

lemma json_loads_failure_no_error:
  \<open>json_loads ''{"success":false,"assets":null}'' =
     Inr (PyDict [(''success'', PyBool False), (''assets'', PyNone)])\<close>
  by code_simp




text \<open>
  Claim C4 fails as it is stated for every decoded structure. For the inner JSON
  \<^verbatim>\<open>{"success":false,"error":"boom"}\<close>, which has no \<^verbatim>\<open>'assets'\<close>, the exception carries
  the whole answer of the service, not \<^verbatim>\<open>'boom'\<close>: the key \<^verbatim>\<open>'assets'\<close> is required
  (line 179) before \<^verbatim>\<open>'success'\<close> is looked at (line 182).
\<close>

theorem C4_counterexample:
  \<open>json_loads ''{"success":false,"error":"boom"}'' =
      Inr (PyDict [(''success'', PyBool False), (''error'', PyStr ''boom'')])
    \<and> fst (delete_assets
          (nexus_mock_client (PyDict [(''result'', PyStr ''{"success":false,"error":"boom"}'')]))
          ''repo'' ''a'' False True []) =
        Inl (NexusClientAPIError (PyDict [(''result'', PyStr ''{"success":false,"error":"boom"}'')]))
    \<and> fst (delete_assets
          (nexus_mock_client (PyDict [(''result'', PyStr ''{"success":false,"error":"boom"}'')]))
          ''repo'' ''a'' False True []) \<noteq> Inl (NexusClientAPIError (PyStr ''boom''))\<close>
  by (intro conjI, rule json_loads_failure_no_assets)
     (simp_all add: delete_assets_dict [OF mock_answers _ json_loads_failure_no_assets])

text \<open>
  Claim C4, amended. For every dict decoded from \<^verbatim>\<open>'result'\<close> that has the key
  \<^verbatim>\<open>'assets'\<close>: if \<^verbatim>\<open>'success'\<close> is \<^verbatim>\<open>false\<close> and \<^verbatim>\<open>'error'\<close> is \<open>m\<close>, \<^verbatim>\<open>delete_assets\<close>
  raises \<^verbatim>\<open>NexusClientAPIError\<close> carrying exactly \<open>m\<close>; if the key \<^verbatim>\<open>'success'\<close> is absent,
  it returns the assets (the empty list for null).
\<close>

theorem C4_success_false_or_absent:
  assumes "script_answers c log reponame assetRegex isWildcard dryRun (PyDict d)"
    and "map_of d ''result'' = Some (PyStr s)"
    and "json_loads s = Inr (PyDict r)"
    and "map_of r ''assets'' = Some assets_list"
  shows "(\<forall>m. map_of r ''success'' = Some (PyBool False) \<and> map_of r ''error'' = Some m \<longrightarrow>
            fst (delete_assets c reponame assetRegex isWildcard dryRun log) =
              Inl (NexusClientAPIError m))
       \<and> (map_of r ''success'' = None \<longrightarrow>
            fst (delete_assets c reponame assetRegex isWildcard dryRun log) =
              Inr (if assets_list = PyNone then PyList [] else assets_list))"
  using assms(4) by (simp add: delete_assets_dict [OF assms(1,2,3)] success_is_False_def)

text \<open>
  A failure with its message, and an answer without \<^verbatim>\<open>'success'\<close>.
\<close>

theorem C4_witness:
  \<open>fst (delete_assets
          (nexus_mock_client
             (PyDict [(''result'', PyStr ''{"success":false,"error":"boom","assets":null}'')]))
          ''repo'' ''a'' False True []) = Inl (NexusClientAPIError (PyStr ''boom''))
    \<and> fst (delete_assets
          (nexus_mock_client (PyDict [(''result'', PyStr ''{"assets":["/r/b","/r//a","/r/b"]}'')]))
          ''repo'' ''a'' False True []) = Inr (PyList [PyStr ''/r/b'', PyStr ''/r//a'', PyStr ''/r/b''])\<close>
proof (intro conjI)
  show \<open>fst (delete_assets
          (nexus_mock_client
             (PyDict [(''result'', PyStr ''{"success":false,"error":"boom","assets":null}'')]))
          ''repo'' ''a'' False True []) = Inl (NexusClientAPIError (PyStr ''boom''))\<close>
    using C4_success_false_or_absent [OF mock_answers _ json_loads_failure_null] by simp
  show \<open>fst (delete_assets
          (nexus_mock_client (PyDict [(''result'', PyStr ''{"assets":["/r/b","/r//a","/r/b"]}'')]))
          ''repo'' ''a'' False True []) = Inr (PyList [PyStr ''/r/b'', PyStr ''/r//a'', PyStr ''/r/b''])\<close>
    using C4_success_false_or_absent [OF mock_answers _ json_loads_unsorted] by simp
qed

lemma json_loads_failure_only:
  \<open>json_loads ''{"success":false}'' = Inr (PyDict [(''success'', PyBool False)])\<close>
  by code_simp

text \<open>
  Claim C10 fails as it is worded for every inner JSON with \<^verbatim>\<open>success=false\<close> and no
  \<^verbatim>\<open>'error'\<close>. For the inner JSON \<^verbatim>\<open>{"success":false}\<close>, which has no \<^verbatim>\<open>'assets'\<close> either,
  the lookup of line 183 is not reached: the guard of line 179 raises
  \<^verbatim>\<open>NexusClientAPIError\<close> carrying the whole answer of the service, the protocol error,
  and not \<^verbatim>\<open>KeyError\<close>.
\<close>

theorem C10_counterexample:
  \<open>json_loads ''{"success":false}'' = Inr (PyDict [(''success'', PyBool False)])
    \<and> success_is_False [(''success'', PyBool False)]
    \<and> map_of [(''success'', PyBool False)] ''error'' = None
    \<and> fst (delete_assets
          (nexus_mock_client (PyDict [(''result'', PyStr ''{"success":false}'')]))
          ''repo'' ''a'' False True []) =
        Inl (NexusClientAPIError (PyDict [(''result'', PyStr ''{"success":false}'')]))
    \<and> fst (delete_assets
          (nexus_mock_client (PyDict [(''result'', PyStr ''{"success":false}'')]))
          ''repo'' ''a'' False True []) \<noteq> Inl (KeyError ''error'')\<close>
  by (intro conjI, rule json_loads_failure_only)
     (simp_all add: delete_assets_dict [OF mock_answers _ json_loads_failure_only]
        success_is_False_def)

text \<open>
  Claim C10, amended. The branch of line 183 is partial: when a decoded dict that has the
  key \<^verbatim>\<open>'assets'\<close> reports a failure (\<^verbatim>\<open>'success'\<close> equal to \<^verbatim>\<open>False\<close>) and has no key
  \<^verbatim>\<open>'error'\<close>, the lookup \<^verbatim>\<open>script_result['error']\<close> raises \<^verbatim>\<open>KeyError('error')\<close>. That
  is what leaves \<^verbatim>\<open>delete_assets\<close>: not a \<^verbatim>\<open>NexusClientAPIError\<close>, with a message or
  with the raw answer.
\<close>

theorem C10_missing_error_key:
  assumes "script_answers c log reponame assetRegex isWildcard dryRun (PyDict d)"
    and "map_of d ''result'' = Some (PyStr s)"
    and "json_loads s = Inr (PyDict r)"
    and "map_of r ''assets'' = Some assets_list"
    and "success_is_False r"
    and "map_of r ''error'' = None"
  shows "fst (delete_assets c reponame assetRegex isWildcard dryRun log) = Inl (KeyError ''error'')"
  using assms(4,5,6) by (simp add: delete_assets_dict [OF assms(1,2,3)])

text \<open>
  The inner JSON \<^verbatim>\<open>{"success":false,"assets":null}\<close>.
\<close>

theorem C10_witness:
  \<open>json_loads ''{"success":false,"assets":null}'' =
      Inr (PyDict [(''success'', PyBool False), (''assets'', PyNone)])
    \<and> success_is_False [(''success'', PyBool False), (''assets'', PyNone)]
    \<and> fst (delete_assets
          (nexus_mock_client (PyDict [(''result'', PyStr ''{"success":false,"assets":null}'')]))
          ''repo'' ''a'' False True []) = Inl (KeyError ''error'')\<close>
proof (intro conjI)
  show f: "success_is_False [(''success'', PyBool False), (''assets'', PyNone)]"
    by (simp add: success_is_False_def)
  show \<open>fst (delete_assets
          (nexus_mock_client (PyDict [(''result'', PyStr ''{"success":false,"assets":null}'')]))
          ''repo'' ''a'' False True []) = Inl (KeyError ''error'')\<close>
    by (rule C10_missing_error_key [OF mock_answers _ json_loads_failure_no_error _ f]) simp_all
qed (rule json_loads_failure_no_error)

section \<open>The events of a run\<close>

lemma json_dumps_jsonData_text:
  "json_dumps (PyDict (jsonData reponame assetRegex isWildcard dryRun)) =
     Inr (json_dumps_jsonData_text reponame assetRegex isWildcard dryRun)"
  by (simp add: json_dumps_jsonData_text_def json_dumps_jsonData del: json_dumps.simps)



lemma delete_assets_returns_log:
  assumes "delete_assets c reponame assetRegex isWildcard dryRun log = (Inr assets_list, log')"
  shows "log' = log @ delete_assets_events c reponame assetRegex isWildcard dryRun"
  using assms
  by (auto simp: delete_assets_def delete_assets_events_def json_dumps_jsonData_text Let_def
        split: option.splits sum.splits simp del: json_dumps.simps)



text \<open>
  Claim C5. A run without \<^verbatim>\<open>--force\<close> whose preview returns an empty answer writes
  "Found 0 matching assets: aborting delete" and returns, and these are all its events: the
  line "Retrieving assets ...", the one call of \<^verbatim>\<open>delete_assets\<close> with \<^verbatim>\<open>dryRun=True\<close> (for
  the repository subcommands: the script is installed and run once, on the text with
  \<^verbatim>\<open>"dryRun": true\<close>), and the line "Found 0 ...". There is no prompt
  (\<open>InputWithDefault\<close>) and no second call among them. This holds for
  \<^verbatim>\<open>subcommand_repository._cmd_del_assets\<close> and for \<^verbatim>\<open>root_commands._cmd_del_assets\<close>.
\<close>

theorem C5_zero_matches_stop:
  "(delete_assets c repoName assetRegex isWildcard True
        (log @ [StdoutWrite (''Retrieving assets matching '' @ assetRegex @ nl)]) =
      (Inr assets_list, log')
    \<and> py_len assets_list = Inr 0 \<longrightarrow>
    subcommand_repository_cmd_del_assets c repoName assetRegex isWildcard False log =
      (Inr (return_code_value c SUCCESS),
       log @ [StdoutWrite (''Retrieving assets matching '' @ assetRegex @ nl)]
           @ delete_assets_events c repoName assetRegex isWildcard True
           @ [StdoutWrite (''Found 0 matching assets: aborting delete'' @ nl)]))
   \<and> (repositories_delete_assets c
        (log @ [StdoutWrite (''Retrieving assets matching '' @ AssetMatchOptions_name assetMatchOption
                  @ '' '' @ [CHR 0x22] @ assetName @ [CHR 0x22] @ '' from repository ''
                  @ [CHR 0x22] @ repoName @ [CHR 0x22] @ nl)])
        repoName assetName assetMatchOption True = Inr assets_list
    \<and> py_len assets_list = Inr 0 \<longrightarrow>
    root_commands_cmd_del_assets c repoName assetName assetMatchOption False log =
      (Inr (return_code_value c SUCCESS),
       log @ [StdoutWrite (''Retrieving assets matching '' @ AssetMatchOptions_name assetMatchOption
                  @ '' '' @ [CHR 0x22] @ assetName @ [CHR 0x22] @ '' from repository ''
                  @ [CHR 0x22] @ repoName @ [CHR 0x22] @ nl),
              RepositoriesDeleteAssets repoName assetName assetMatchOption True,
              StdoutWrite (''Found 0 matching assets: aborting delete'' @ nl)]))"
proof (intro conjI impI)
  assume a: "delete_assets c repoName assetRegex isWildcard True
        (log @ [StdoutWrite (''Retrieving assets matching '' @ assetRegex @ nl)]) =
      (Inr assets_list, log') \<and> py_len assets_list = Inr 0"
  then have "log' = (log @ [StdoutWrite (''Retrieving assets matching '' @ assetRegex @ nl)])
      @ delete_assets_events c repoName assetRegex isWildcard True"
    using delete_assets_returns_log by blast
  with a show "subcommand_repository_cmd_del_assets c repoName assetRegex isWildcard False log =
      (Inr (return_code_value c SUCCESS),
       log @ [StdoutWrite (''Retrieving assets matching '' @ assetRegex @ nl)]
           @ delete_assets_events c repoName assetRegex isWildcard True
           @ [StdoutWrite (''Found 0 matching assets: aborting delete'' @ nl)])"
    by (simp add: subcommand_repository_cmd_del_assets_def)
next
  assume "repositories_delete_assets c
        (log @ [StdoutWrite (''Retrieving assets matching '' @ AssetMatchOptions_name assetMatchOption
                  @ '' '' @ [CHR 0x22] @ assetName @ [CHR 0x22] @ '' from repository ''
                  @ [CHR 0x22] @ repoName @ [CHR 0x22] @ nl)])
        repoName assetName assetMatchOption True = Inr assets_list
    \<and> py_len assets_list = Inr 0"
  then show "root_commands_cmd_del_assets c repoName assetName assetMatchOption False log =
      (Inr (return_code_value c SUCCESS),
       log @ [StdoutWrite (''Retrieving assets matching '' @ AssetMatchOptions_name assetMatchOption
                  @ '' '' @ [CHR 0x22] @ assetName @ [CHR 0x22] @ '' from repository ''
                  @ [CHR 0x22] @ repoName @ [CHR 0x22] @ nl),
              RepositoriesDeleteAssets repoName assetName assetMatchOption True,
              StdoutWrite (''Found 0 matching assets: aborting delete'' @ nl)])"
    by (simp add: root_commands_cmd_del_assets_def Let_def)
qed


lemma delete_assets_mock:
  "delete_assets (nexus_mock_client r) reponame assetRegex isWildcard dryRun log =
     (parse_groovy_returned_json r,
      log @ delete_assets_events (nexus_mock_client r) reponame assetRegex isWildcard dryRun)"
  using delete_assets_answers [OF mock_answers [of r log reponame assetRegex isWildcard dryRun]]
  by (auto simp: delete_assets_events_def json_dumps_jsonData_text simp del: json_dumps.simps)

lemma json_loads_empty_assets:
  \<open>json_loads ''{"success":true,"error":"","assets":[]}'' =
     Inr (PyDict [(''success'', PyBool True), (''error'', PyStr ''''), (''assets'', PyList [])])\<close>
  by code_simp

lemma parse_empty_assets:
  \<open>parse_groovy_returned_json
     (PyDict [(''result'', PyStr ''{"success":true,"error":"","assets":[]}'')]) = Inr (PyList [])\<close>
  by (simp add: parse_groovy_returned_json_dict [OF _ json_loads_empty_assets] success_is_False_def)

text \<open>
  The script answers with an empty list of assets.
\<close>

theorem C5_witness:
  \<open>subcommand_repository_cmd_del_assets
      (nexus_mock_client (PyDict [(''result'', PyStr ''{"success":true,"error":"","assets":[]}'')]))
      ''repo'' ''a.*'' False False [] =
      (Inr 0,
       [StdoutWrite (''Retrieving assets matching a.*'' @ nl)]
         @ delete_assets_events
             (nexus_mock_client (PyDict [(''result'', PyStr ''{"success":true,"error":"","assets":[]}'')]))
             ''repo'' ''a.*'' False True
         @ [StdoutWrite (''Found 0 matching assets: aborting delete'' @ nl)])
    \<and> root_commands_cmd_del_assets
      (nexus_mock_client (PyDict [(''result'', PyStr ''{"success":true,"error":"","assets":[]}'')]))
      ''repo'' ''dir/a'' EXACT_NAME False [] =
      (Inr 0,
       [StdoutWrite (''Retrieving assets matching EXACT_NAME '' @ [CHR 0x22] @ ''dir/a'' @ [CHR 0x22]
                     @ '' from repository '' @ [CHR 0x22] @ ''repo'' @ [CHR 0x22] @ nl),
        RepositoriesDeleteAssets ''repo'' ''dir/a'' EXACT_NAME True,
        StdoutWrite (''Found 0 matching assets: aborting delete'' @ nl)])\<close>
  using C5_zero_matches_stop
    [where c = "nexus_mock_client (PyDict [(''result'', PyStr ''{\"success\":true,\"error\":\"\",\"assets\":[]}'')])"
       and repoName = "''repo''" and assetRegex = "''a.*''" and isWildcard = False and log = "[]"
       and assets_list = "PyList []" and assetMatchOption = EXACT_NAME and assetName = "''dir/a''"]
  by (simp add: delete_assets_mock parse_empty_assets)
     (simp add: nexus_mock_client_def parse_empty_assets)




section \<open>Return codes\<close>









section \<open>The payload and the scripts of the service\<close>

lemma hexval_hexdigit: "n < 16 \<Longrightarrow> hexval (hexdigit n) = Some n"
proof -
  assume "n < 16"
  then consider "n < 10" | "10 \<le> n" "n < 16" by linarith
  then show ?thesis
  proof cases
    case 1
    then have "(of_char (char_of (48 + n)) :: nat) = 48 + n" by simp
    with 1 show ?thesis by (simp add: hexval_def hexdigit_def Let_def)
  next
    case 2
    then have "(of_char (char_of (87 + n)) :: nat) = 87 + n" by simp
    with 2 show ?thesis by (simp add: hexval_def hexdigit_def Let_def)
  qed
qed

lemma decode_uXXXX_escape:
  "decode_uXXXX (CHR ''0'' # CHR ''0'' # hexdigit ((of_char c :: nat) div 16)
                  # hexdigit ((of_char c :: nat) mod 16) # rest) = Some (of_char c)"
proof -
  have "(of_char c :: nat) < 256" by simp
  then have d: "(of_char c :: nat) div 16 < 16" by arith
  have m: "(of_char c :: nat) mod 16 < 16" by simp
  have z: "hexval (CHR ''0'') = Some 0" by (simp add: hexval_def)
  show ?thesis
    by (simp add: decode_uXXXX_def z hexval_hexdigit [OF d] hexval_hexdigit [OF m])
qed

lemma py_scanstring_escape_char:
  "py_scanstring acc (escape_char c @ rest) = py_scanstring (c # acc) rest"
proof -
  consider "c = CHR 0x5C" | "c = CHR 0x22" | "c = CHR 0x08" | "c = CHR 0x0C" | "c = CHR 0x0A"
    | "c = CHR 0x0D" | "c = CHR 0x09"
    | "c \<noteq> CHR 0x5C" "c \<noteq> CHR 0x22" "32 \<le> (of_char c :: nat)" "(of_char c :: nat) \<le> 126"
    | "c \<noteq> CHR 0x5C" "c \<noteq> CHR 0x22" "c \<noteq> CHR 0x08" "c \<noteq> CHR 0x0C" "c \<noteq> CHR 0x0A"
      "c \<noteq> CHR 0x0D" "c \<noteq> CHR 0x09" "\<not> (32 \<le> (of_char c :: nat) \<and> (of_char c :: nat) \<le> 126)"
    by blast
  then show ?thesis
  proof cases
    case 8
    then have "escape_char c = [c]"
      by (auto simp: escape_char_def)
    with 8 show ?thesis by simp
  next
    case 9
    then have "escape_char c = [CHR 0x5C, CHR ''u'', CHR ''0'', CHR ''0'',
            hexdigit ((of_char c :: nat) div 16), hexdigit ((of_char c :: nat) mod 16)]"
      by (simp add: escape_char_def)
    then show ?thesis
      by (simp add: decode_uXXXX_escape)
  qed (simp_all add: escape_char_def BACKSLASH_def)
qed

lemma py_scanstring_escaped:
  "py_scanstring acc (concat (map escape_char s) @ CHR 0x22 # rest) = Inr (rev acc @ s, rest)"
  by (induction s arbitrary: acc) (simp_all add: py_scanstring_escape_char)

lemma py_scanstring_encode_basestring_ascii:
  "py_scanstring [] (tl (encode_basestring_ascii s) @ rest) = Inr (s, rest)"
  by (simp add: encode_basestring_ascii_def py_scanstring_escaped)

lemma skip_whitespace_Cons:
  "c \<notin> set WHITESPACE_STR \<Longrightarrow> skip_whitespace (c # cs) = c # cs"
  by (simp add: skip_whitespace_def)

lemma skip_whitespace_Nil: "skip_whitespace [] = []"
  by (simp add: skip_whitespace_def)

lemma skip_whitespace_space:
  "skip_whitespace (CHR 0x20 # cs) = skip_whitespace cs"
  by (simp add: skip_whitespace_def WHITESPACE_STR_def)

text \<open>
  What \<^verbatim>\<open>delete_assets\<close> sends decodes to the dict it was made from, for all names and
  patterns: every character that \<^verbatim>\<open>json.dumps\<close> escapes is read back by
  \<^verbatim>\<open>json.loads\<close>.
\<close>

lemma json_loads_json_dumps_jsonData:
  "json_loads (json_dumps_jsonData_text reponame assetRegex isWildcard dryRun) =
     Inr (PyDict (jsonData reponame assetRegex isWildcard dryRun))"
proof -
  have shape: "json_dumps_jsonData_text reponame assetRegex isWildcard dryRun =
     CHR ''{'' # CHR 0x22 # ''repoName'' @ CHR 0x22 # '': '' @ CHR 0x22
       # concat (map escape_char reponame) @ CHR 0x22 # '', '' @ CHR 0x22 # ''assetRegex''
       @ CHR 0x22 # '': '' @ CHR 0x22 # concat (map escape_char assetRegex) @ CHR 0x22 # '', ''
       @ CHR 0x22 # ''isWildcard'' @ CHR 0x22 # '': '' @ (if isWildcard then ''true'' else ''false'')
       @ '', '' @ CHR 0x22 # ''dryRun'' @ CHR 0x22 # '': ''
       @ (if dryRun then ''true'' else ''false'') @ ''}''"
    by (simp add: json_dumps_jsonData_text_def json_dumps_jsonData encode_basestring_ascii_def
          escape_char_def del: json_dumps.simps)
  show ?thesis
    unfolding shape
    by (cases isWildcard; cases dryRun)
       (simp_all add: json_loads_def scan_once.simps JSONObject_loop.simps
          skip_whitespace_Nil skip_whitespace_space skip_whitespace_Cons WHITESPACE_STR_def
          py_scanstring_escaped jsonData_eq)
qed

lemma delete_assets_answers_log:
  assumes "script_answers c log reponame assetRegex isWildcard dryRun groovy_returned_json"
  shows "snd (delete_assets c reponame assetRegex isWildcard dryRun log) =
           log @ delete_assets_events c reponame assetRegex isWildcard dryRun"
  using delete_assets_answers [OF assms]
  by (auto simp: delete_assets_events_def json_dumps_jsonData_text simp del: json_dumps.simps)

text \<open>
  Claim C7 fails for the scripts of the service. A service holds an older script under
  the name \<^verbatim>\<open>nexus3-cli-repository-delete-assets\<close>; after one call of \<^verbatim>\<open>delete_assets\<close>
  with \<^verbatim>\<open>dryRun=True\<close> it holds the script of the client under that name.
\<close>

theorem C7_counterexample:
  \<open>[SCRIPT_NAME_DELETE_ASSETS \<mapsto> ''// an older script''] SCRIPT_NAME_DELETE_ASSETS =
      Some ''// an older script''
    \<and> registry_after [SCRIPT_NAME_DELETE_ASSETS \<mapsto> ''// an older script'']
        (snd (delete_assets
           (nexus_mock_client (PyDict [(''result'', PyStr ''{"success":true,"error":"","assets":[]}'')]))
           ''repo'' ''a.*'' False True []))
        SCRIPT_NAME_DELETE_ASSETS = Some ''// nexus3-cli-repository-delete-assets''\<close>
proof -
  have \<open>snd (delete_assets
           (nexus_mock_client (PyDict [(''result'', PyStr ''{"success":true,"error":"","assets":[]}'')]))
           ''repo'' ''a.*'' False True []) =
        [] @ delete_assets_events
           (nexus_mock_client (PyDict [(''result'', PyStr ''{"success":true,"error":"","assets":[]}'')]))
           ''repo'' ''a.*'' False True\<close>
    by (rule delete_assets_answers_log [OF mock_answers])
  then show ?thesis
    by (simp add: delete_assets_events_def registry_after_def nexus_mock_client_def
          SCRIPT_NAME_DELETE_ASSETS_def)
qed

text \<open>
  Claim C7, amended. A call of \<^verbatim>\<open>delete_assets\<close> with \<^verbatim>\<open>dryRun=True\<close> that goes through
  sends three requests and no other: delete the script, create it, run it once. The text
  that is run decodes to \<^verbatim>\<open>{repoName, assetRegex, isWildcard, dryRun: true}\<close>. The two first
  requests change the scripts of the service: under the name of the script stands the
  script of the client, whatever stood there; every other name keeps what it had. The
  assets are touched by the run alone, and what the run does is decided by the script on
  the service, which is told \<^verbatim>\<open>dryRun: true\<close>.
\<close>

theorem C7_dry_run_requests:
  assumes "script_answers c log reponame assetRegex isWildcard True groovy_returned_json"
  shows "snd (delete_assets c reponame assetRegex isWildcard True log) =
           log @ [ScriptsDelete SCRIPT_NAME_DELETE_ASSETS,
                  ScriptsCreateIfMissing SCRIPT_NAME_DELETE_ASSETS
                    (groovy_script c SCRIPT_NAME_DELETE_ASSETS),
                  ScriptsRun SCRIPT_NAME_DELETE_ASSETS
                    (json_dumps_jsonData_text reponame assetRegex isWildcard True)]
       \<and> json_loads (json_dumps_jsonData_text reponame assetRegex isWildcard True) =
           Inr (PyDict [(''repoName'', PyStr reponame), (''assetRegex'', PyStr assetRegex),
                        (''isWildcard'', PyBool isWildcard), (''dryRun'', PyBool True)])
       \<and> registry_after reg
           [ScriptsDelete SCRIPT_NAME_DELETE_ASSETS,
            ScriptsCreateIfMissing SCRIPT_NAME_DELETE_ASSETS
              (groovy_script c SCRIPT_NAME_DELETE_ASSETS),
            ScriptsRun SCRIPT_NAME_DELETE_ASSETS
              (json_dumps_jsonData_text reponame assetRegex isWildcard True)] =
           reg(SCRIPT_NAME_DELETE_ASSETS \<mapsto> groovy_script c SCRIPT_NAME_DELETE_ASSETS)"
  using delete_assets_answers_log [OF assms]
  by (simp add: delete_assets_events_def registry_after_def json_loads_json_dumps_jsonData
        jsonData_eq)

text \<open>
  The three requests of a dry run, as the mock client receives them.
\<close>

theorem C7_witness:
  \<open>snd (delete_assets
          (nexus_mock_client (PyDict [(''result'', PyStr ''{"success":true,"error":"","assets":[]}'')]))
          ''repo'' ''a.*'' False True []) =
      [ScriptsDelete ''nexus3-cli-repository-delete-assets'',
       ScriptsCreateIfMissing ''nexus3-cli-repository-delete-assets''
         ''// nexus3-cli-repository-delete-assets'',
       ScriptsRun ''nexus3-cli-repository-delete-assets''
         ''{"repoName": "repo", "assetRegex": "a.*", "isWildcard": false, "dryRun": true}'']\<close>
proof -
  have \<open>json_dumps_jsonData_text ''repo'' ''a.*'' False True =
      ''{"repoName": "repo", "assetRegex": "a.*", "isWildcard": false, "dryRun": true}''\<close>
    by code_simp
  then show ?thesis
    using C7_dry_run_requests [OF mock_answers,
        where reg = Map.empty and reponame = "''repo''" and assetRegex = "''a.*''"
          and isWildcard = False and log = "[]"]
    by (simp add: nexus_mock_client_def SCRIPT_NAME_DELETE_ASSETS_def)
qed

text \<open>
  Modelled from the spec: the request of section 3 (DeletionRequest; its MatchMode has the
  three members of \<^verbatim>\<open>AssetMatchOptions\<close>) and its payload, by step 2 of section 4.3:
  \<^verbatim>\<open>{repoName, assetRegex: pattern, isWildcard: mode==Wildcard, dryRun}\<close>. In the sources
  \<^verbatim>\<open>delete_assets\<close> takes \<^verbatim>\<open>isWildcard\<close> itself; no function there maps a mode to it.
  \<open>deserialize\<close> reads a payload by the schema of section 6: two strings and two booleans.
\<close>

record DeletionRequest =
  repositoryName :: string
  pattern :: string
  mode :: AssetMatchOptions
  dryRun :: bool

definition serialize :: "DeletionRequest \<Rightarrow> string" where
  "serialize request =
     json_dumps_jsonData_text (repositoryName request) (pattern request)
       (mode request = WILDCARD) (dryRun request)"

definition deserialize :: "string \<Rightarrow> (string \<times> string \<times> bool \<times> bool) option" where
  "deserialize data =
     (case json_loads data of
        Inr (PyDict payload) \<Rightarrow>
          (case (map_of payload ''repoName'', map_of payload ''assetRegex'',
                 map_of payload ''isWildcard'', map_of payload ''dryRun'') of
             (Some (PyStr r), Some (PyStr a), Some (PyBool w), Some (PyBool d)) \<Rightarrow> Some (r, a, w, d)
           | _ \<Rightarrow> None)
      | _ \<Rightarrow> None)"

text \<open>
  Claim C8 fails for the mode. An exact-name request and a regex request that agree on
  the three other fields are two requests with one and the same payload, so that nothing
  that reads the payload tells them apart.
\<close>

theorem C8_counterexample:
  "serialize \<lparr>repositoryName = ''repo'', pattern = ''a'', mode = EXACT_NAME, dryRun = True\<rparr> =
     serialize \<lparr>repositoryName = ''repo'', pattern = ''a'', mode = REGEX, dryRun = True\<rparr>
   \<and> \<lparr>repositoryName = ''repo'', pattern = ''a'', mode = EXACT_NAME, dryRun = True\<rparr> \<noteq>
     \<lparr>repositoryName = ''repo'', pattern = ''a'', mode = REGEX, dryRun = True\<rparr>"
  by (simp add: serialize_def)

text \<open>
  Claim C8, amended. Sending a request and reading the payload back gives the repository
  name, the pattern and the dry-run flag of the request, and of its mode whether it is
  \<open>WILDCARD\<close>.
\<close>

theorem C8_round_trip:
  "deserialize (serialize request) =
     Some (repositoryName request, pattern request, mode request = WILDCARD, dryRun request)"
  by (simp add: serialize_def deserialize_def json_loads_json_dumps_jsonData jsonData_eq)

text \<open>
  A wildcard request, its payload, and the payload read back.
\<close>

theorem C8_witness:
  \<open>serialize \<lparr>repositoryName = ''repo'', pattern = ''a%'', mode = WILDCARD, dryRun = False\<rparr> =
      ''{"repoName": "repo", "assetRegex": "a%", "isWildcard": true, "dryRun": false}''
    \<and> deserialize ''{"repoName": "repo", "assetRegex": "a%", "isWildcard": true, "dryRun": false}'' =
      Some (''repo'', ''a%'', True, False)\<close>
proof -
  have s: \<open>serialize \<lparr>repositoryName = ''repo'', pattern = ''a%'', mode = WILDCARD, dryRun = False\<rparr> =
      ''{"repoName": "repo", "assetRegex": "a%", "isWildcard": true, "dryRun": false}''\<close>
    by code_simp
  show ?thesis
    using C8_round_trip
      [of "\<lparr>repositoryName = ''repo'', pattern = ''a%'', mode = WILDCARD, dryRun = False\<rparr>"]
    by (simp add: s)
qed

end
